theory Spec2Isabelle
  imports Main
begin

section \<open>The bqt package initialiser (\<^verbatim>\<open>bqt/__init__.py\<close>)\<close>

text \<open>
  The module wires a Qt application into Blender: a modal operator that releases
  modifier keys that are stuck after the window regains focus, a \<^verbatim>\<open>load_post\<close>
  handler that wraps the Blender window once, and the \<^verbatim>\<open>register\<close> /
  \<^verbatim>\<open>unregister\<close> / \<^verbatim>\<open>on_exit\<close> life cycle. Every function of the module is
  embedded as a function on an explicit \<open>world\<close>; an exception is the left
  injection of the result, paired with the world as it was when the exception left the
  function.
\<close>

subsection \<open>Python values and strings\<close>

text \<open>The values \<^verbatim>\<open>os.getenv\<close> can return here: \<^verbatim>\<open>None\<close>, the default \<^verbatim>\<open>0\<close>, or a string.\<close>

datatype pyval = PyNone | PyInt int | PyStr string

fun truthy :: "pyval \<Rightarrow> bool" where
  "truthy PyNone = False"
| "truthy (PyInt n) = (n \<noteq> 0)"
| "truthy (PyStr s) = (s \<noteq> [])"

definition getenv :: "(string \<rightharpoonup> string) \<Rightarrow> string \<Rightarrow> pyval \<Rightarrow> pyval" where
  "getenv e k d = (case e k of None \<Rightarrow> d | Some v \<Rightarrow> PyStr v)"

text \<open>\<^verbatim>\<open>a in b\<close> on two Python strings: \<open>a\<close> occurs in \<open>b\<close> as a contiguous substring.\<close>

fun startswith :: "string \<Rightarrow> string \<Rightarrow> bool" where
  "startswith [] s = True"
| "startswith (a # as) [] = False"
| "startswith (a # as) (c # cs) = (a = c \<and> startswith as cs)"

fun str_in :: "string \<Rightarrow> string \<Rightarrow> bool" where
  "str_in a [] = (a = [])"
| "str_in a (c # cs) = (startswith a (c # cs) \<or> str_in a cs)"

subsection \<open>Errors, handlers and the application singleton\<close>

datatype error = NameError | AttributeError | ValueError | HostError

text \<open>
  The entries of \<^verbatim>\<open>bpy.app.handlers.load_post\<close>: the two handlers of this module, and
  handlers that other add-ons put on the same list.
\<close>

datatype handler = Add_focus_handle | Create_global_app | Foreign_handler nat

datatype bpy_class = QFocusOperator | Focus_QFocusOperator

datatype exit_func = On_exit | Foreign_exit nat

datatype op_status = RUNNING_MODAL | PASS_THROUGH

datatype os_app_class = DarwinBlenderApplication | Win32BlenderApplication

datatype app_call = Store_window_geometry | Quit

datatype qt_setting =
  HighDpiScaleFactorRoundingPolicy_PassThrough | AA_EnableHighDpiScaling | AA_UseHighDpiPixmaps

text \<open>
  The \<^verbatim>\<open>BlenderApplication\<close> object. The module reads and writes \<open>just_focused\<close>,
  reads \<^verbatim>\<open>_blender_window.parent()\<close> and calls two methods whose bodies live in
  \<^verbatim>\<open>blender_applications\<close>; \<open>app_calls\<close> records those calls in order.
\<close>

record app =
  just_focused :: bool
  blender_window_parent :: nat
  app_calls :: "app_call list"

text \<open>
  Everything the module can observe or change. \<open>qapp\<close> is what
  \<^verbatim>\<open>QApplication.instance()\<close> returns, \<open>keybd_events\<close> the arguments of every call of
  \<^verbatim>\<open>ctypes.windll.user32.keybd_event\<close> so far, \<open>stdout\<close> the printed lines.
\<close>

record world =
  env :: "string \<rightharpoonup> string"
  platform :: string
  qapp :: "app option"
  qt_settings :: "qt_setting list"
  load_post :: "handler list"
  classes :: "bpy_class list"
  atexit_funcs :: "exit_func list"
  modal_handlers :: "bpy_class list"
  parent_window :: "nat option"
  stdout :: "string list"
  keybd_events :: "(int \<times> int \<times> int \<times> int) list"

text \<open>
  What the module calls but does not define: whether \<^verbatim>\<open>bpy.utils.register_class\<close>,
  \<^verbatim>\<open>bpy.utils.unregister_class\<close> and \<^verbatim>\<open>bpy.ops.bqt.return_focus\<close> return normally in
  a given world, whether the global name \<^verbatim>\<open>focus\<close> (never bound by the module itself)
  resolves, and the object a platform application class constructs. All results below
  hold for every such host unless a hypothesis says otherwise.
\<close>

record host =
  register_class_ok :: "world \<Rightarrow> bool"
  unregister_class_ok :: "world \<Rightarrow> bool"
  return_focus_ok :: "world \<Rightarrow> bool"
  focus_bound :: bool
  new_application :: "os_app_class \<Rightarrow> app"

text \<open>\<^verbatim>\<open>list.remove(x)\<close>: drops the first occurrence, \<^verbatim>\<open>ValueError\<close> when there is none.\<close>

definition list_remove :: "'a \<Rightarrow> 'a list \<Rightarrow> error + 'a list" where
  "list_remove x xs = (if x \<in> set xs then Inr (remove1 x xs) else Inl ValueError)"

subsection \<open>QFocusOperator\<close>

definition keycodes :: "(string \<times> int) list" where
  "keycodes =
     [(''_ALT'', 0x12),
      (''_CONTROL'', 0x11),
      (''_SHIFT'', 0x10),
      (''VK_LWIN'', 0x5B),
      (''VK_RWIN'', 0x5C)]"

text \<open>
  \<^verbatim>\<open>ctypes.windll.user32.keybd_event(...)\<close>. The attribute \<^verbatim>\<open>ctypes.windll\<close> exists on
  Windows only (\<^verbatim>\<open>sys.platform\<close> is \<^verbatim>\<open>win32\<close> there); on every other platform reading
  it raises \<^verbatim>\<open>AttributeError\<close> and no event is sent.
\<close>

definition keybd_event ::
  "int \<Rightarrow> int \<Rightarrow> int \<Rightarrow> int \<Rightarrow> world \<Rightarrow> (error + unit) \<times> world" where
  "keybd_event bVk bScan dwFlags dwExtraInfo w =
     (if platform w = ''win32''
      then (Inr (), w\<lparr>keybd_events := keybd_events w @ [(bVk, bScan, dwFlags, dwExtraInfo)]\<rparr>)
      else (Inl AttributeError, w))"

text \<open>
  The \<^verbatim>\<open>for name, code in keycodes\<close> loop of \<^verbatim>\<open>detect_keyboard\<close>; an exception of
  the call leaves the loop.
\<close>

fun release_keys ::
  "string \<Rightarrow> (string \<times> int) list \<Rightarrow> world \<Rightarrow> (error + unit) \<times> world" where
  "release_keys event_type [] w = (Inr (), w)"
| "release_keys event_type ((name, code) # ks) w =
     (if \<not> str_in name event_type
      then (case keybd_event code 0 2 0 w of
              (Inl e, w') \<Rightarrow> (Inl e, w')
            | (Inr u, w') \<Rightarrow> release_keys event_type ks w')
      else release_keys event_type ks w)"

definition not_instantiated_msg :: string where
  "not_instantiated_msg = ''QApplication not yet instantiated, focus hook can't be set''"

text \<open>
  \<^verbatim>\<open>self._qapp\<close> is assigned at the top of every call and read nowhere else, so it is
  the bound variable of the case distinction.
\<close>

definition detect_keyboard :: "string \<Rightarrow> world \<Rightarrow> (error + unit) \<times> world" where
  "detect_keyboard event_type w =
     (case qapp w of
        None \<Rightarrow> (Inr (), w\<lparr>stdout := stdout w @ [not_instantiated_msg]\<rparr>)
      | Some a \<Rightarrow>
          if just_focused a
          then release_keys event_type keycodes
                 (w\<lparr>qapp := Some (a\<lparr>just_focused := False\<rparr>)\<rparr>)
          else (Inr (), w))"

definition invoke :: "world \<Rightarrow> (error + op_status) \<times> world" where
  "invoke w = (Inr RUNNING_MODAL, w\<lparr>modal_handlers := modal_handlers w @ [QFocusOperator]\<rparr>)"

definition modal :: "string \<Rightarrow> world \<Rightarrow> (error + op_status) \<times> world" where
  "modal event_type w =
     (case detect_keyboard event_type w of
        (Inl e, w') \<Rightarrow> (Inl e, w')
      | (Inr u, w') \<Rightarrow> (Inr PASS_THROUGH, w'))"

subsection \<open>Core functions\<close>

definition load_os_module :: "host \<Rightarrow> world \<Rightarrow> app option \<times> world" where
  "load_os_module h w =
     (if platform w = ''darwin''
      then (Some (new_application h DarwinBlenderApplication),
            w\<lparr>qapp := Some (new_application h DarwinBlenderApplication)\<rparr>)
      else if platform w \<in> set [''linux'', ''linux2'']
      then (None, w)
      else if platform w = ''win32''
      then (Some (new_application h Win32BlenderApplication),
            w\<lparr>qapp := Some (new_application h Win32BlenderApplication)\<rparr>)
      else (None, w))"

definition instantiate_application :: "host \<Rightarrow> world \<Rightarrow> app option \<times> world" where
  "instantiate_application h w =
     (let w1 = w\<lparr>qt_settings := qt_settings w @
                  [HighDpiScaleFactorRoundingPolicy_PassThrough,
                   AA_EnableHighDpiScaling,
                   AA_UseHighDpiPixmaps]\<rparr>
      in case qapp w1 of
           None \<Rightarrow> load_os_module h w1
         | Some a \<Rightarrow> (Some a, w1))"

definition add_focus_handle :: "host \<Rightarrow> world \<Rightarrow> (error + unit) \<times> world" where
  "add_focus_handle h w =
     (if return_focus_ok h w
      then (case invoke w of
              (Inl e, w') \<Rightarrow> (Inl e, w')
            | (Inr s, w') \<Rightarrow> (Inr (), w'))
      else (Inl HostError, w))"

definition create_global_app :: "host \<Rightarrow> world \<Rightarrow> (error + unit) \<times> world" where
  "create_global_app h w =
     (case instantiate_application h w of
        (None, w1) \<Rightarrow> (Inl AttributeError, w1)
      | (Some a, w1) \<Rightarrow>
          (let w2 = w1\<lparr>parent_window := Some (blender_window_parent a)\<rparr>
           in case list_remove Create_global_app (load_post w2) of
                Inl e \<Rightarrow> (Inl e, w2)
              | Inr lp \<Rightarrow> (Inr (), w2\<lparr>load_post := lp\<rparr>)))"

definition register :: "host \<Rightarrow> world \<Rightarrow> (error + unit) \<times> world" where
  "register h w =
     (if truthy (getenv (env w) ''BQT_DISABLE_STARTUP'' PyNone) then (Inr (), w)
      else
        case (if \<not> truthy (getenv (env w) ''BQT_DISABLE_WRAP'' (PyInt 0))
              then (if register_class_ok h w
                    then (let w1 = w\<lparr>classes := classes w @ [QFocusOperator]\<rparr>
                          in Inr (if Add_focus_handle \<notin> set (load_post w1)
                                  then w1\<lparr>load_post := load_post w1 @ [Add_focus_handle]\<rparr>
                                  else w1))
                    else Inl HostError)
              else Inr w) of
          Inl e \<Rightarrow> (Inl e, w)
        | Inr w2 \<Rightarrow>
            (let w3 = (if Create_global_app \<notin> set (load_post w2)
                       then w2\<lparr>load_post := load_post w2 @ [Create_global_app]\<rparr>
                       else w2)
             in (Inr (), w3\<lparr>atexit_funcs := atexit_funcs w3 @ [On_exit]\<rparr>)))"

definition unregister :: "host \<Rightarrow> world \<Rightarrow> (error + unit) \<times> world" where
  "unregister h w =
     (case (if \<not> (getenv (env w) ''BQT_DISABLE_WRAP'' (PyInt 0) = PyStr ''1'')
            then (if \<not> focus_bound h then Inl NameError
                  else if unregister_class_ok h w
                  then Inr (w\<lparr>classes := removeAll Focus_QFocusOperator (classes w)\<rparr>)
                  else Inl HostError)
            else Inr w) of
        Inl e \<Rightarrow> (Inl e, w)
      | Inr w1 \<Rightarrow>
          (case (if Create_global_app \<in> set (load_post w1)
                 then list_remove Create_global_app (load_post w1)
                 else Inr (load_post w1)) of
             Inl e \<Rightarrow> (Inl e, w1)
           | Inr lp1 \<Rightarrow>
               (case (if Add_focus_handle \<in> set lp1
                      then list_remove Add_focus_handle lp1
                      else Inr lp1) of
                  Inl e \<Rightarrow> (Inl e, w1\<lparr>load_post := lp1\<rparr>)
                | Inr lp2 \<Rightarrow>
                    (Inr (), w1\<lparr>load_post := lp2,
                                atexit_funcs := removeAll On_exit (atexit_funcs w1)\<rparr>))))"

definition on_exit :: "world \<Rightarrow> (error + unit) \<times> world" where
  "on_exit w =
     (case qapp w of
        None \<Rightarrow> (Inr (), w)
      | Some a \<Rightarrow>
          (let a1 = a\<lparr>app_calls := app_calls a @ [Store_window_geometry]\<rparr>;
               a2 = a1\<lparr>app_calls := app_calls a1 @ [Quit]\<rparr>
           in (Inr (), w\<lparr>qapp := Some a2\<rparr>)))"

subsection \<open>Sequences of calls into the module\<close>

text \<open>
  Blender calls \<^verbatim>\<open>register\<close> and \<^verbatim>\<open>unregister\<close> when the add-on is switched on and
  off, the handlers on \<^verbatim>\<open>load_post\<close> after a file is loaded, \<^verbatim>\<open>modal\<close> for every
  input event, and Python calls \<^verbatim>\<open>on_exit\<close> at exit. An exception ends the call and
  leaves the world as it was at that moment.
\<close>

datatype call =
  Call_register | Call_unregister | Call_add_focus_handle | Call_create_global_app
  | Call_modal string | Call_on_exit

fun exec :: "host \<Rightarrow> world \<Rightarrow> call \<Rightarrow> world" where
  "exec h w Call_register = snd (register h w)"
| "exec h w Call_unregister = snd (unregister h w)"
| "exec h w Call_add_focus_handle = snd (add_focus_handle h w)"
| "exec h w Call_create_global_app = snd (create_global_app h w)"
| "exec h w (Call_modal event_type) = snd (modal event_type w)"
| "exec h w Call_on_exit = snd (on_exit w)"

definition run :: "host \<Rightarrow> call list \<Rightarrow> world \<Rightarrow> world" where
  "run h cs w = foldl (exec h) w cs"

subsection \<open>Concrete worlds\<close>

text \<open>
  A host on which every external call succeeds and \<^verbatim>\<open>focus\<close> resolves, and the world
  of a fresh Blender process on Windows with no environment variable set.
\<close>

definition fresh_app :: app where
  "fresh_app = \<lparr>just_focused = False, blender_window_parent = 1, app_calls = []\<rparr>"

definition host0 :: host where
  "host0 = \<lparr>register_class_ok = (\<lambda>w. True), unregister_class_ok = (\<lambda>w. True),
            return_focus_ok = (\<lambda>w. True), focus_bound = True,
            new_application = (\<lambda>c. fresh_app)\<rparr>"

definition world0 :: world where
  "world0 = \<lparr>env = Map.empty, platform = ''win32'', qapp = None, qt_settings = [],
             load_post = [], classes = [], atexit_funcs = [], modal_handlers = [],
             parent_window = None, stdout = [], keybd_events = []\<rparr>"

text \<open>The world after \<^verbatim>\<open>register\<close> has run once in the fresh process.\<close>

definition world_registered :: world where
  "world_registered =
     world0\<lparr>load_post := [Add_focus_handle, Create_global_app],
             classes := [QFocusOperator], atexit_funcs := [On_exit]\<rparr>"

text \<open>A world whose application exists and has just regained focus.\<close>

definition focused_world :: world where
  "focused_world = world0\<lparr>qapp := Some (fresh_app\<lparr>just_focused := True\<rparr>)\<rparr>"

text \<open>The fresh process started with \<^verbatim>\<open>BQT_DISABLE_WRAP=1\<close>.\<close>

definition world_nowrap :: world where
  "world_nowrap = world0\<lparr>env := [''BQT_DISABLE_WRAP'' \<mapsto> ''1'']\<rparr>"

text \<open>A registered process on Linux, where no application exists yet.\<close>

definition world_linux :: world where
  "world_linux = world_registered\<lparr>platform := ''linux''\<rparr>"

text \<open>The same moment after regaining focus, in a process on macOS.\<close>

definition focused_world_darwin :: world where
  "focused_world_darwin = focused_world\<lparr>platform := ''darwin''\<rparr>"

text \<open>
  The host as the module itself leaves it: every external call succeeds, and the name
  \<^verbatim>\<open>focus\<close>, which the module never binds, does not resolve.
\<close>

definition host_module :: host where
  "host_module = host0\<lparr>focus_bound := False\<rparr>"


text \<open>
  Blender's event types (\<^verbatim>\<open>bpy.types.Event.type\<close>) for a press of one of the keys the
  table \<open>keycodes\<close> is about: Alt, Control, Shift and the OS key. The names are Blender's,
  not the module's; they only delimit which events count as modifier presses.
\<close>

definition modifier_event_types :: "string list" where
  "modifier_event_types =
     [''LEFT_ALT'', ''RIGHT_ALT'', ''LEFT_CTRL'', ''RIGHT_CTRL'',
      ''LEFT_SHIFT'', ''RIGHT_SHIFT'', ''OSKEY'']"

section \<open>Properties\<close>

subsection \<open>The key-release loop\<close>

lemma release_keys_win32:
  "platform w = ''win32'' \<Longrightarrow>
   release_keys ev ks w =
     (Inr (),
      w\<lparr>keybd_events := keybd_events w @
           map (\<lambda>(name, code). (code, 0, 2, 0))
             (filter (\<lambda>(name, code). \<not> str_in name ev) ks)\<rparr>)"
  by (induction ks arbitrary: w) (auto simp: keybd_event_def)

lemma release_keys_none_match:
  assumes "platform w = ''win32''"
    and "\<forall>(name, code) \<in> set ks. \<not> str_in name ev"
  shows "release_keys ev ks w =
           (Inr (), w\<lparr>keybd_events := keybd_events w @
                          map (\<lambda>(name, code). (code, 0, 2, 0)) ks\<rparr>)"
proof -
  have "filter (\<lambda>(name, code). \<not> str_in name ev) ks = ks"
    using assms(2) by (auto simp: filter_id_conv)
  then show ?thesis
    using release_keys_win32 [OF assms(1), of ev ks] by simp
qed

lemma qapp_release_keys: "qapp (snd (release_keys ev ks w)) = qapp w"
  by (induction ks arbitrary: w) (auto simp: keybd_event_def)

lemma load_post_release_keys: "load_post (snd (release_keys ev ks w)) = load_post w"
  by (induction ks arbitrary: w) (auto simp: keybd_event_def)

subsection \<open>What each function does to \<open>load_post\<close>\<close>

lemma load_post_detect_keyboard: "load_post (snd (detect_keyboard ev w)) = load_post w"
  by (simp add: detect_keyboard_def load_post_release_keys split: option.splits)

lemma load_post_modal: "load_post (snd (modal ev w)) = load_post w"
proof (cases "detect_keyboard ev w")
  case (Pair r w')
  then show ?thesis
    using load_post_detect_keyboard [of ev w] by (cases r) (simp_all add: modal_def)
qed

lemma load_post_on_exit: "load_post (snd (on_exit w)) = load_post w"
  by (simp add: on_exit_def Let_def split: option.splits)

lemma load_post_add_focus_handle: "load_post (snd (add_focus_handle h w)) = load_post w"
  by (simp add: add_focus_handle_def invoke_def)

lemma load_post_instantiate_application:
  "load_post (snd (instantiate_application h w)) = load_post w"
  by (simp add: instantiate_application_def load_os_module_def Let_def split: option.splits)

lemma load_post_create_global_app:
  "load_post (snd (create_global_app h w)) =
     (if fst (create_global_app h w) = Inr ()
      then remove1 Create_global_app (load_post w) else load_post w)"
  using load_post_instantiate_application [of h w]
  by (auto simp: create_global_app_def list_remove_def Let_def
           split: prod.splits option.splits)

lemma create_global_app_success_member:
  "fst (create_global_app h w) = Inr () \<Longrightarrow> Create_global_app \<in> set (load_post w)"
  using load_post_instantiate_application [of h w]
  by (auto simp: create_global_app_def list_remove_def Let_def
           split: prod.splits option.splits if_splits)

lemma load_post_register:
  "load_post (snd (register h w)) = load_post w
   \<or> load_post (snd (register h w)) = load_post w @ [Create_global_app]
        \<and> Create_global_app \<notin> set (load_post w)
   \<or> load_post (snd (register h w)) = load_post w @ [Add_focus_handle]
        \<and> Add_focus_handle \<notin> set (load_post w)
   \<or> load_post (snd (register h w)) = load_post w @ [Add_focus_handle, Create_global_app]
        \<and> Add_focus_handle \<notin> set (load_post w) \<and> Create_global_app \<notin> set (load_post w)"
  by (simp add: register_def Let_def)

lemma load_post_unregister:
  "load_post (snd (unregister h w)) = load_post w
   \<or> load_post (snd (unregister h w)) =
        remove1 Add_focus_handle (remove1 Create_global_app (load_post w))"
  by (auto simp: unregister_def list_remove_def remove1_idem)

subsection \<open>Invariants of call sequences\<close>

lemma distinct_register:
  "distinct (load_post w) \<Longrightarrow> distinct (load_post (snd (register h w)))"
  using load_post_register [of h w] by auto

lemma distinct_unregister:
  "distinct (load_post w) \<Longrightarrow> distinct (load_post (snd (unregister h w)))"
  using load_post_unregister [of h w] by auto

lemma distinct_exec: "distinct (load_post w) \<Longrightarrow> distinct (load_post (exec h w c))"
  by (cases c)
     (simp_all add: distinct_register distinct_unregister load_post_add_focus_handle
        load_post_create_global_app load_post_modal load_post_on_exit)

lemma distinct_run: "distinct (load_post w) \<Longrightarrow> distinct (load_post (run h cs w))"
  unfolding run_def by (induction cs arbitrary: w) (simp_all add: distinct_exec)

lemma absent_exec:
  "c \<noteq> Call_register \<Longrightarrow> x \<notin> set (load_post w) \<Longrightarrow> x \<notin> set (load_post (exec h w c))"
proof (cases c)
  case Call_unregister
  assume "x \<notin> set (load_post w)"
  then show ?thesis
    using Call_unregister load_post_unregister [of h w] by (auto dest: notin_set_remove1)
next
  case Call_create_global_app
  assume "x \<notin> set (load_post w)"
  then show ?thesis
    using Call_create_global_app
    by (auto simp: load_post_create_global_app dest: notin_set_remove1)
qed (simp_all add: load_post_add_focus_handle load_post_modal load_post_on_exit)

lemma absent_run:
  "Call_register \<notin> set cs \<Longrightarrow> x \<notin> set (load_post w) \<Longrightarrow>
   x \<notin> set (load_post (run h cs w))"
  unfolding run_def
proof (induction cs arbitrary: w)
  case Nil
  then show ?case by simp
next
  case (Cons c cs)
  have "x \<notin> set (load_post (exec h w c))"
    using Cons.prems absent_exec [of c x w h] by auto
  then show ?case
    using Cons.IH [of "exec h w c"] Cons.prems by simp
qed

section \<open>The claims\<close>

text \<open>
  Claim C1 as stated fails: the wrap hook does remove itself when it succeeds, but it is
  not gone for the rest of the process. Take the process started with
  \<^verbatim>\<open>BQT_DISABLE_WRAP=1\<close>, where \<^verbatim>\<open>register\<close> and \<^verbatim>\<open>unregister\<close> leave the
  operator class alone: after \<^verbatim>\<open>register\<close> the hook runs successfully and is off
  the list; the add-on is switched off and on again (\<^verbatim>\<open>unregister\<close>, \<^verbatim>\<open>register\<close>),
  and the hook is back on \<^verbatim>\<open>load_post\<close>, because \<^verbatim>\<open>register\<close> appends it whenever
  it is not on the list.
\<close>

theorem create_global_app_back_after_register:
  "fst (create_global_app host0 (run host0 [Call_register] world_nowrap)) = Inr ()
   \<and> Create_global_app \<notin>
       set (load_post (run host0 [Call_register, Call_create_global_app] world_nowrap))
   \<and> Create_global_app \<in>
       set (load_post (run host0
             [Call_register, Call_create_global_app, Call_unregister, Call_register]
             world_nowrap))"
  by (simp add: run_def register_def unregister_def create_global_app_def
        instantiate_application_def load_os_module_def list_remove_def getenv_def Let_def
        world_nowrap_def world0_def host0_def)

text \<open>
  Claim C1, amended. When \<^verbatim>\<open>create_global_app\<close> returns normally on a duplicate-free
  \<^verbatim>\<open>load_post\<close>, it was on the list, the list afterwards is the old one without it,
  and it stays absent after every sequence of later calls into the module (handlers,
  modal events, \<^verbatim>\<open>unregister\<close>, \<^verbatim>\<open>on_exit\<close>) that contains no \<^verbatim>\<open>register\<close>: as long
  as \<^verbatim>\<open>register\<close> is not called again, no scene load finds it on the list.
\<close>

theorem create_global_app_absent_until_register:
  assumes "create_global_app h w = (Inr (), w')"
    and "distinct (load_post w)"
    and "Call_register \<notin> set cs"
  shows "Create_global_app \<in> set (load_post w)
       \<and> load_post w' = remove1 Create_global_app (load_post w)
       \<and> Create_global_app \<notin> set (load_post (run h cs w'))"
proof -
  have ok: "fst (create_global_app h w) = Inr ()" and w': "w' = snd (create_global_app h w)"
    using assms(1) by simp_all
  have lp: "load_post w' = remove1 Create_global_app (load_post w)"
    using ok w' by (simp add: load_post_create_global_app)
  have "Create_global_app \<notin> set (load_post w')"
    using lp assms(2) by simp
  then have "Create_global_app \<notin> set (load_post (run h cs w'))"
    using assms(3) by (simp add: absent_run)
  then show ?thesis
    using lp create_global_app_success_member [OF ok] by simp
qed

text \<open>
  The amended claim C1 at the registered Windows process: the hook fires, then a scene
  load runs the focus handler, an event arrives, the add-on is switched off and the
  process exits.
\<close>

theorem create_global_app_absent_until_register_witness:
  "create_global_app host0 world_registered
     = (Inr (), snd (create_global_app host0 world_registered))
   \<and> distinct (load_post world_registered)
   \<and> Call_register \<notin>
       set [Call_add_focus_handle, Call_modal ''A'', Call_unregister, Call_on_exit]
   \<and> load_post (snd (create_global_app host0 world_registered)) = [Add_focus_handle]
   \<and> Create_global_app \<notin>
       set (load_post
             (run host0 [Call_add_focus_handle, Call_modal ''A'', Call_unregister, Call_on_exit]
                (snd (create_global_app host0 world_registered))))"
proof -
  have "fst (create_global_app host0 world_registered) = Inr ()"
    by (simp add: create_global_app_def instantiate_application_def load_os_module_def
          list_remove_def Let_def world_registered_def world0_def host0_def)
  then have h1: "create_global_app host0 world_registered
                   = (Inr (), snd (create_global_app host0 world_registered))"
    by (simp add: prod_eq_iff)
  have h2: "distinct (load_post world_registered)"
    by (simp add: world_registered_def world0_def)
  have h3: "Call_register \<notin>
              set [Call_add_focus_handle, Call_modal ''A'', Call_unregister, Call_on_exit]"
    by simp
  have h4: "load_post world_registered = [Add_focus_handle, Create_global_app]"
    by (simp add: world_registered_def world0_def)
  show ?thesis
    using h1 h2 h3 create_global_app_absent_until_register [OF h1 h2 h3]
    by (simp add: h4)
qed

text \<open>
  Claim C2 as stated fails in two ways. On macOS, with the application present and just
  focused, the key \<^verbatim>\<open>A\<close> sends no release at all: \<^verbatim>\<open>ctypes.windll\<close> does not exist
  there and the call leaves with \<^verbatim>\<open>AttributeError\<close>. On Windows, the 3D-mouse button
  \<^verbatim>\<open>NDOF_BUTTON_ALT\<close> is not one of the five modifier keys, but its event type
  contains \<^verbatim>\<open>_ALT\<close>, so the release of Alt is skipped and four releases are sent.
\<close>

theorem detect_keyboard_five_releases_counterexample:
  "fst (detect_keyboard ''A'' focused_world_darwin) = Inl AttributeError
   \<and> keybd_events (snd (detect_keyboard ''A'' focused_world_darwin)) = []
   \<and> ''NDOF_BUTTON_ALT'' \<notin> set modifier_event_types
   \<and> keybd_events (snd (detect_keyboard ''NDOF_BUTTON_ALT'' focused_world)) =
        [(0x11, 0, 2, 0), (0x10, 0, 2, 0), (0x5B, 0, 2, 0), (0x5C, 0, 2, 0)]"
  by (simp add: detect_keyboard_def focused_world_darwin_def focused_world_def world0_def
        keycodes_def keybd_event_def modifier_event_types_def)

text \<open>
  Claim C2, amended. On Windows, when the application exists, \<open>just_focused\<close> is set,
  the event is not the press of a modifier key and its event type contains none of the
  five names of the key table, \<^verbatim>\<open>detect_keyboard\<close> returns normally, clears
  \<open>just_focused\<close> and calls \<^verbatim>\<open>keybd_event(code, 0, 2, 0)\<close> exactly once for each of
  Alt (0x12), Control (0x11), Shift (0x10), left OS key (0x5B) and right OS key (0x5C),
  in that order; nothing else changes.
\<close>

theorem detect_keyboard_releases_all_five:
  assumes "platform w = ''win32''"
    and "qapp w = Some a" and "just_focused a"
    and "event_type \<notin> set modifier_event_types"
    and "\<forall>(name, code) \<in> set keycodes. \<not> str_in name event_type"
  shows "detect_keyboard event_type w =
           (Inr (), w\<lparr>qapp := Some (a\<lparr>just_focused := False\<rparr>),
                       keybd_events := keybd_events w @
                         [(0x12, 0, 2, 0), (0x11, 0, 2, 0), (0x10, 0, 2, 0),
                          (0x5B, 0, 2, 0), (0x5C, 0, 2, 0)]\<rparr>)"
proof -
  let ?w1 = "w\<lparr>qapp := Some (a\<lparr>just_focused := False\<rparr>)\<rparr>"
  have "platform ?w1 = ''win32''" using assms(1) by simp
  then have "release_keys event_type keycodes ?w1 =
               (Inr (), ?w1\<lparr>keybd_events := keybd_events ?w1 @
                                map (\<lambda>(name, code). (code, 0, 2, 0)) keycodes\<rparr>)"
    using assms(5) by (rule release_keys_none_match)
  then show ?thesis
    using assms(2,3) by (simp add: detect_keyboard_def) (simp add: keycodes_def)
qed

text \<open>
  The amended claim C2 at the key \<^verbatim>\<open>A\<close>, pressed on Windows right after the window
  regained focus.
\<close>

theorem detect_keyboard_releases_all_five_witness:
  "platform focused_world = ''win32''
   \<and> qapp focused_world = Some (fresh_app\<lparr>just_focused := True\<rparr>)
   \<and> just_focused (fresh_app\<lparr>just_focused := True\<rparr>)
   \<and> ''A'' \<notin> set modifier_event_types
   \<and> \<not> str_in ''_ALT'' ''A'' \<and> \<not> str_in ''_CONTROL'' ''A'' \<and> \<not> str_in ''_SHIFT'' ''A''
   \<and> \<not> str_in ''VK_LWIN'' ''A'' \<and> \<not> str_in ''VK_RWIN'' ''A''
   \<and> fst (detect_keyboard ''A'' focused_world) = Inr ()
   \<and> keybd_events (snd (detect_keyboard ''A'' focused_world)) =
        [(0x12, 0, 2, 0), (0x11, 0, 2, 0), (0x10, 0, 2, 0), (0x5B, 0, 2, 0), (0x5C, 0, 2, 0)]
   \<and> map_option just_focused (qapp (snd (detect_keyboard ''A'' focused_world))) = Some False"
proof -
  have h0: "platform focused_world = ''win32''"
    by (simp add: focused_world_def world0_def)
  have h1: "qapp focused_world = Some (fresh_app\<lparr>just_focused := True\<rparr>)"
    by (simp add: focused_world_def world0_def)
  have h2: "just_focused (fresh_app\<lparr>just_focused := True\<rparr>)" by simp
  have h3: "''A'' \<notin> set modifier_event_types"
    by (simp add: modifier_event_types_def)
  have h4: "\<forall>(name, code) \<in> set keycodes. \<not> str_in name ''A''"
    by (simp add: keycodes_def)
  show ?thesis
    using h0 h1 h2 h3 h4 detect_keyboard_releases_all_five [OF h0 h1 h2 h3 h4]
    by (simp add: focused_world_def world0_def)
qed

text \<open>
  Claim C3 says that a modifier that triggers the event gets no release. For the Control
  key it does: Blender reports it as \<^verbatim>\<open>LEFT_CTRL\<close>, the table looks for \<^verbatim>\<open>_CONTROL\<close>,
  which does not occur in it, so the release of 0x11 is sent with the other four.
\<close>

theorem detect_keyboard_left_ctrl_releases_control:
  "str_in ''_ALT'' ''LEFT_ALT''
   \<and> \<not> str_in ''_CONTROL'' ''LEFT_CTRL''
   \<and> fst (detect_keyboard ''LEFT_CTRL'' focused_world) = Inr ()
   \<and> keybd_events (snd (detect_keyboard ''LEFT_CTRL'' focused_world)) =
        [(0x12, 0, 2, 0), (0x11, 0, 2, 0), (0x10, 0, 2, 0), (0x5B, 0, 2, 0), (0x5C, 0, 2, 0)]"
  by (simp add: detect_keyboard_def focused_world_def world0_def keycodes_def keybd_event_def)

text \<open>
  Claim C4 says that no sequence of \<^verbatim>\<open>register\<close> and \<^verbatim>\<open>unregister\<close> calls duplicates a
  hook, and that registering a registered hook and deregistering an absent one are
  no-ops without an error. The list does stay free of duplicates (\<open>distinct_run\<close>), but
  the calls are not such no-ops. \<^verbatim>\<open>unregister\<close> first evaluates
  \<^verbatim>\<open>focus.QFocusOperator\<close>, and the module never binds \<^verbatim>\<open>focus\<close>: in the fresh
  process, with both hooks absent, it raises \<^verbatim>\<open>NameError\<close>; in the registered process
  it raises as well and both hooks stay on the list. And a second \<^verbatim>\<open>register\<close>, here
  under \<^verbatim>\<open>BQT_DISABLE_WRAP=1\<close> where no class is involved, leaves the hook list alone
  but registers \<^verbatim>\<open>on_exit\<close> a second time.
\<close>

theorem unregister_raises_name_error:
  "fst (unregister host_module world0) = Inl NameError
   \<and> fst (unregister host_module world_registered) = Inl NameError
   \<and> load_post (snd (unregister host_module world_registered))
       = [Add_focus_handle, Create_global_app]
   \<and> load_post (run host_module [Call_register, Call_register] world_nowrap)
       = [Create_global_app]
   \<and> atexit_funcs (run host_module [Call_register, Call_register] world_nowrap)
       = [On_exit, On_exit]"
  by (simp add: run_def register_def unregister_def getenv_def Let_def host_module_def
        host0_def world_registered_def world_nowrap_def world0_def)




text \<open>
  Claim C6 as stated fails. With \<^verbatim>\<open>BQT_DISABLE_WRAP=1\<close> and \<^verbatim>\<open>BQT_DISABLE_STARTUP\<close>
  unset, \<^verbatim>\<open>register\<close> in the fresh process does put the wrap hook on \<^verbatim>\<open>load_post\<close>,
  and it is the focus operator and the focus hook that it leaves out.
\<close>

theorem register_disable_wrap_counterexample:
  "fst (register host0 world_nowrap) = Inr ()
   \<and> Create_global_app \<in> set (load_post (snd (register host0 world_nowrap)))
   \<and> Add_focus_handle \<notin> set (load_post (snd (register host0 world_nowrap)))
   \<and> QFocusOperator \<notin> set (classes (snd (register host0 world_nowrap)))"
  by (simp add: register_def getenv_def Let_def world_nowrap_def world0_def host0_def)

text \<open>
  Claim C6, amended. When \<^verbatim>\<open>BQT_DISABLE_WRAP\<close> is set to a non-empty string and
  \<^verbatim>\<open>BQT_DISABLE_STARTUP\<close> is unset or empty, \<^verbatim>\<open>register\<close> returns normally, does not
  register the focus operator and does not add the focus hook; it still appends the
  wrap hook \<^verbatim>\<open>create_global_app\<close> unless it is already on the list, and registers
  \<^verbatim>\<open>on_exit\<close>. Nothing else changes.
\<close>

theorem register_disable_wrap_keeps_wrap_hook:
  assumes "\<not> truthy (getenv (env w) ''BQT_DISABLE_STARTUP'' PyNone)"
    and "truthy (getenv (env w) ''BQT_DISABLE_WRAP'' (PyInt 0))"
  shows "register h w =
           (Inr (),
            w\<lparr>load_post := (if Create_global_app \<in> set (load_post w) then load_post w
                             else load_post w @ [Create_global_app]),
              atexit_funcs := atexit_funcs w @ [On_exit]\<rparr>)"
  using assms by (simp add: register_def Let_def)

text \<open>The amended claim C6 in the fresh process started with \<^verbatim>\<open>BQT_DISABLE_WRAP=1\<close>.\<close>

theorem register_disable_wrap_keeps_wrap_hook_witness:
  "\<not> truthy (getenv (env world_nowrap) ''BQT_DISABLE_STARTUP'' PyNone)
   \<and> truthy (getenv (env world_nowrap) ''BQT_DISABLE_WRAP'' (PyInt 0))
   \<and> load_post (snd (register host0 world_nowrap)) = [Create_global_app]
   \<and> classes (snd (register host0 world_nowrap)) = []
   \<and> atexit_funcs (snd (register host0 world_nowrap)) = [On_exit]"
proof -
  have h1: "\<not> truthy (getenv (env world_nowrap) ''BQT_DISABLE_STARTUP'' PyNone)"
    by (simp add: world_nowrap_def world0_def getenv_def)
  have h2: "truthy (getenv (env world_nowrap) ''BQT_DISABLE_WRAP'' (PyInt 0))"
    by (simp add: world_nowrap_def world0_def getenv_def)
  show ?thesis
    using h1 h2 register_disable_wrap_keeps_wrap_hook [OF h1 h2, of host0]
    by (simp add: world_nowrap_def world0_def)
qed

text \<open>
  Claim C7 says that on Linux the loader returns nothing and the wrap step silently does
  nothing. The loader does return \<^verbatim>\<open>None\<close>, but \<^verbatim>\<open>create_global_app\<close> then reads
  \<^verbatim>\<open>qapp._blender_window\<close> of that \<^verbatim>\<open>None\<close>: it leaves with an \<^verbatim>\<open>AttributeError\<close>,
  no application exists, and the hook is still on \<^verbatim>\<open>load_post\<close>, so the same happens
  at the next scene load.
\<close>

theorem create_global_app_linux_raises:
  "fst (load_os_module host0 world_linux) = None
   \<and> fst (create_global_app host0 world_linux) = Inl AttributeError
   \<and> qapp (snd (create_global_app host0 world_linux)) = None
   \<and> load_post (snd (create_global_app host0 world_linux))
       = [Add_focus_handle, Create_global_app]"
  by (simp add: create_global_app_def instantiate_application_def load_os_module_def Let_def
        world_linux_def world_registered_def world0_def)

text \<open>
  Claim C8. When no application exists, \<^verbatim>\<open>detect_keyboard\<close> returns normally for every
  event, and the world afterwards is the old one with the diagnostic line appended to
  the output: no key release is sent and nothing else changes.
\<close>

theorem detect_keyboard_no_application:
  assumes "qapp w = None"
  shows "detect_keyboard event_type w =
           (Inr (), w\<lparr>stdout := stdout w @ [not_instantiated_msg]\<rparr>)"
  using assms by (simp add: detect_keyboard_def)

text \<open>Claim C8 in the fresh process, before the first scene load.\<close>

theorem detect_keyboard_no_application_witness:
  "qapp world0 = None
   \<and> fst (detect_keyboard ''LEFT_CTRL'' world0) = Inr ()
   \<and> keybd_events (snd (detect_keyboard ''LEFT_CTRL'' world0)) = []
   \<and> stdout (snd (detect_keyboard ''LEFT_CTRL'' world0)) = [not_instantiated_msg]
   \<and> qapp (snd (detect_keyboard ''LEFT_CTRL'' world0)) = None"
proof -
  have h: "qapp world0 = None" by (simp add: world0_def)
  show ?thesis
    using h detect_keyboard_no_application [OF h, of "''LEFT_CTRL''"]
    by (simp add: world0_def)
qed

text \<open>
  Claim C9. \<^verbatim>\<open>on_exit\<close> without an application returns with the world unchanged; with
  an application it calls \<^verbatim>\<open>store_window_geometry\<close> and then \<^verbatim>\<open>quit\<close> on it, in that
  order, and changes nothing else. A \<^verbatim>\<open>register\<close> that is not disabled by
  \<^verbatim>\<open>BQT_DISABLE_STARTUP\<close> and returns normally has put \<^verbatim>\<open>on_exit\<close> among the functions
  run at exit.
\<close>

theorem on_exit_store_then_quit:
  "(qapp w = None \<longrightarrow> on_exit w = (Inr (), w))
   \<and> (\<forall>a. qapp w = Some a \<longrightarrow>
          on_exit w =
            (Inr (), w\<lparr>qapp := Some (a\<lparr>app_calls :=
                                          app_calls a @ [Store_window_geometry, Quit]\<rparr>)\<rparr>))
   \<and> (\<not> truthy (getenv (env w) ''BQT_DISABLE_STARTUP'' PyNone) \<and> fst (register h w) = Inr ()
          \<longrightarrow> On_exit \<in> set (atexit_funcs (snd (register h w))))"
  by (auto simp: on_exit_def register_def Let_def split: if_splits)

text \<open>Claim C9 with and without an application, after \<^verbatim>\<open>register\<close> in the fresh process.\<close>

theorem on_exit_store_then_quit_witness:
  "qapp focused_world = Some (fresh_app\<lparr>just_focused := True\<rparr>)
   \<and> map_option app_calls (qapp (snd (on_exit focused_world)))
       = Some [Store_window_geometry, Quit]
   \<and> qapp world0 = None
   \<and> on_exit world0 = (Inr (), world0)
   \<and> On_exit \<in> set (atexit_funcs (snd (register host0 world0)))"
proof -
  have h1: "qapp focused_world = Some (fresh_app\<lparr>just_focused := True\<rparr>)"
    by (simp add: focused_world_def world0_def)
  have h2: "qapp world0 = None" by (simp add: world0_def)
  have h3: "\<not> truthy (getenv (env world0) ''BQT_DISABLE_STARTUP'' PyNone)"
    by (simp add: getenv_def world0_def)
  have h4: "fst (register host0 world0) = Inr ()"
    by (simp add: register_def getenv_def Let_def world0_def host0_def)
  have "app_calls (fresh_app\<lparr>just_focused := True\<rparr>) = []"
    by (simp add: fresh_app_def)
  then show ?thesis
    using h1 h2 h3 h4 on_exit_store_then_quit [of focused_world host0]
      on_exit_store_then_quit [of world0 host0]
    by simp
qed

text \<open>
  Claim C10. For every event and every world, the application after \<^verbatim>\<open>detect_keyboard\<close>
  is the application before it, except that a set \<open>just_focused\<close> has been cleared:
  there is no application afterwards exactly when there was none before, every other
  field keeps its value, and \<open>just_focused\<close> is never set after the call.
\<close>

theorem detect_keyboard_frame:
  "qapp (snd (detect_keyboard event_type w)) =
     (case qapp w of
        None \<Rightarrow> None
      | Some a \<Rightarrow> Some (if just_focused a then a\<lparr>just_focused := False\<rparr> else a))
   \<and> (case qapp (snd (detect_keyboard event_type w)) of
         None \<Rightarrow> True
       | Some a' \<Rightarrow> \<not> just_focused a')"
  by (simp add: detect_keyboard_def qapp_release_keys split: option.splits)

text \<open>Claim C10 at a Shift key press right after the window regained focus.\<close>

theorem detect_keyboard_frame_witness:
  "qapp (snd (detect_keyboard ''LEFT_SHIFT'' focused_world)) = Some fresh_app"
  using detect_keyboard_frame [of "''LEFT_SHIFT''" focused_world]
  by (simp add: focused_world_def world0_def fresh_app_def)

end
